theory Spec2Isabelle
  imports Complex_Main "HOL-Library.Signed_Division"
begin

section \<open>Numbers and vectors\<close>

text \<open>
  The demo computes with C++ \<open>float\<close> and with glm's \<open>vec3\<close>. Here a \<open>float\<close> is a
  \<^typ>\<open>real\<close>: every operation is exact, and rounding, infinities and NaN are outside
  the model. The properties below that the specification states "within tolerance" are
  proved for the exact values. A C++ \<open>int\<close> is an \<^typ>\<open>int\<close>; the loop counters below
  stay between 0 and their bound, so no counter wraps.
\<close>

datatype vec3 = Vec3 (vx: real) (vy: real) (vz: real)

text \<open>glm's \<open>operator+\<close>, \<open>operator*\<close> (vector by scalar), \<open>dot\<close>, \<open>cross\<close>,
  \<open>normalize\<close> (\<open>v * inversesqrt(dot(v, v))\<close>) and \<open>radians\<close>, over exact reals.\<close>

definition vadd :: "vec3 \<Rightarrow> vec3 \<Rightarrow> vec3" where
  "vadd a b = Vec3 (vx a + vx b) (vy a + vy b) (vz a + vz b)"

definition vscale :: "vec3 \<Rightarrow> real \<Rightarrow> vec3" where
  "vscale a s = Vec3 (vx a * s) (vy a * s) (vz a * s)"

definition dot :: "vec3 \<Rightarrow> vec3 \<Rightarrow> real" where
  "dot a b = vx a * vx b + vy a * vy b + vz a * vz b"

definition cross :: "vec3 \<Rightarrow> vec3 \<Rightarrow> vec3" where
  "cross a b = Vec3 (vy a * vz b - vy b * vz a)
                    (vz a * vx b - vz b * vx a)
                    (vx a * vy b - vx b * vy a)"

definition vlength :: "vec3 \<Rightarrow> real" where
  "vlength a = sqrt (dot a a)"

definition normalize_vec3 :: "vec3 \<Rightarrow> vec3" where
  "normalize_vec3 a = vscale a (1 / sqrt (dot a a))"

definition radians :: "real \<Rightarrow> real" where
  "radians d = d * (pi / 180)"

section \<open>Counted loops\<close>

text \<open>\<open>for (int i = i0; i < n; ++i) s = body(i, s);\<close>\<close>

function for_loop :: "int \<Rightarrow> int \<Rightarrow> (int \<Rightarrow> 's \<Rightarrow> 's) \<Rightarrow> 's \<Rightarrow> 's" where
  "for_loop i n body s = (if i < n then for_loop (i + 1) n body (body i s) else s)"
  by pat_completeness auto
termination
  by (relation "measure (\<lambda>(i, n, body, s). nat (n - i))") auto

declare for_loop.simps [simp del]

section \<open>Vertex buffers\<close>

text \<open>
  A vertex buffer is a flat \<open>std::vector<float>\<close>. \<open>Object\<close> reads it three floats to
  a vertex (\<open>vertexCount = size / 3\<close>, attribute 0 with 3 components and stride
  \<open>3 * sizeof(float)\<close>); \<open>vertices_of\<close> is that reading.
\<close>

fun vertices_of :: "real list \<Rightarrow> vec3 list" where
  "vertices_of (a # b # c # rest) = Vec3 a b c # vertices_of rest"
| "vertices_of _ = []"

definition in_cube :: "vec3 \<Rightarrow> bool" where
  "in_cube p \<longleftrightarrow> - (1/2) \<le> vx p \<and> vx p \<le> 1/2 \<and> - (1/2) \<le> vy p \<and> vy p \<le> 1/2
     \<and> - (1/2) \<le> vz p \<and> vz p \<le> 1/2"

section \<open>The subdivided cube (no\_test1.cpp, class Cube)\<close>

text \<open>The lambda \<open>getPoint\<close> of \<open>addFace\<close>, with what it captures passed in.\<close>

definition getPoint :: "vec3 \<Rightarrow> vec3 \<Rightarrow> vec3 \<Rightarrow> real \<Rightarrow> int \<Rightarrow> int \<Rightarrow> vec3" where
  "getPoint normal side1 side2 step u v =
     vadd (vadd (vscale normal 0.5) (vscale side1 ((of_int u * step) - 0.5)))
          (vscale side2 ((of_int v * step) - 0.5))"

text \<open>The body of the inner loop of \<open>addFace\<close>: one grid cell, two triangles.\<close>

definition addFace_cell ::
    "vec3 \<Rightarrow> vec3 \<Rightarrow> vec3 \<Rightarrow> real \<Rightarrow> int \<Rightarrow> int \<Rightarrow> real list \<Rightarrow> real list" where
  "addFace_cell normal side1 side2 step i j vertices =
     (let p1 = getPoint normal side1 side2 step i j;
          p2 = getPoint normal side1 side2 step (i + 1) j;
          p3 = getPoint normal side1 side2 step i (j + 1);
          p4 = getPoint normal side1 side2 step (i + 1) (j + 1)
      in (vertices @ [vx p1, vy p1, vz p1, vx p2, vy p2, vz p2, vx p3, vy p3, vz p3])
           @ [vx p2, vy p2, vz p2, vx p4, vy p4, vz p4, vx p3, vy p3, vz p3])"

definition addFace :: "real list \<Rightarrow> vec3 \<Rightarrow> int \<Rightarrow> real list" where
  "addFace vertices normal res =
     (let side1 = Vec3 (vy normal) (vz normal) (vx normal);
          side2 = cross normal side1;
          step = 1 / of_int res
      in for_loop 0 res
           (\<lambda>i. for_loop 0 res (\<lambda>j. addFace_cell normal side1 side2 step i j))
           vertices)"

definition faces :: "vec3 list" where
  "faces = [Vec3 1 0 0, Vec3 (-1) 0 0, Vec3 0 1 0, Vec3 0 (-1) 0, Vec3 0 0 1, Vec3 0 0 (-1)]"

definition generateSubdividedCube :: "int \<Rightarrow> real list" where
  "generateSubdividedCube res = fold (\<lambda>f vertices. addFace vertices f res) faces []"

section \<open>The curved ground grid (no\_test1.cpp, class Ground)\<close>

text \<open>The body of the inner loop of \<open>Ground::generateVertices\<close>: the six
  \<open>vertices.insert(vertices.end(), {...})\<close> calls of one grid cell. The parameter
  \<open>size\<close> of the source is \<open>sz\<close> here and below.\<close>

definition ground_cell :: "real \<Rightarrow> real \<Rightarrow> int \<Rightarrow> int \<Rightarrow> real list \<Rightarrow> real list" where
  "ground_cell sz step i j vertices =
     (let x = - sz + of_int i * step;
          z = - sz + of_int j * step
      in (((((vertices @ [x, - 1, z])
              @ [x + step, - 1, z])
              @ [x, - 1, z + step])
              @ [x + step, - 1, z])
              @ [x + step, - 1, z + step])
              @ [x, - 1, z + step])"

definition generateVertices :: "real \<Rightarrow> real list" where
  "generateVertices sz =
     (let resolution = 500;
          step = (sz * 2) / of_int resolution
      in for_loop 0 resolution
           (\<lambda>i. for_loop 0 resolution (\<lambda>j. ground_cell sz step i j))
           [])"

section \<open>The flat ground quad (test3.cpp, class Ground)\<close>

definition generateVertices_flat :: "real \<Rightarrow> real list" where
  "generateVertices_flat sz =
     [- sz, - 1, - sz,
        sz, - 1, - sz,
      - sz, - 1,   sz,
        sz, - 1, - sz,
        sz, - 1,   sz,
      - sz, - 1,   sz]"

section \<open>The camera (class Camera)\<close>

record Camera =
  cameraPos :: vec3
  cameraFront :: vec3
  cameraUp :: vec3
  speed :: real
  yaw :: real
  pitch :: real
  lastX :: real
  lastY :: real
  firstMouse :: bool

text \<open>The macros \<open>Width\<close> and \<open>Height\<close> of no\_test1.cpp.\<close>

definition Width :: real where
  "Width = 1600"

definition Height :: real where
  "Height = 1200"

text \<open>The constructor \<open>Camera::Camera()\<close>.\<close>

definition Camera_new :: Camera where
  "Camera_new =
     \<lparr> cameraPos = Vec3 0 0 4,
       cameraFront = Vec3 0 (- 0.3) (- 1),
       cameraUp = Vec3 0 1 0,
       speed = 2.5,
       yaw = - 90,
       pitch = 0,
       lastX = Width / 2,
       lastY = Height / 2,
       firstMouse = True \<rparr>"

text \<open>The vector \<open>front\<close> that \<open>updateCameraVectors\<close> builds from yaw and pitch,
  before it is normalised.\<close>

definition front_of :: "real \<Rightarrow> real \<Rightarrow> vec3" where
  "front_of yw ptch =
     Vec3 (cos (radians yw) * cos (radians ptch))
          (sin (radians ptch))
          (sin (radians yw) * cos (radians ptch))"

definition updateCameraVectors :: "Camera \<Rightarrow> Camera" where
  "updateCameraVectors c = c\<lparr>cameraFront := normalize_vec3 (front_of (yaw c) (pitch c))\<rparr>"

definition ProcessMouseMovement :: "Camera \<Rightarrow> real \<Rightarrow> real \<Rightarrow> bool \<Rightarrow> Camera" where
  "ProcessMouseMovement c xoffset yoffset constrainPitch =
     (let sensitivity = 0.1;
          xoffset = xoffset * sensitivity;
          yoffset = yoffset * sensitivity;
          c = c\<lparr>yaw := yaw c + xoffset\<rparr>;
          c = c\<lparr>pitch := pitch c + yoffset\<rparr>;
          c = (if constrainPitch
               then (let c = (if pitch c > 89 then c\<lparr>pitch := 89\<rparr> else c)
                     in (if pitch c < - 89 then c\<lparr>pitch := - 89\<rparr> else c))
               else c)
      in updateCameraVectors c)"

text \<open>A call that leaves out \<open>constrainPitch\<close> takes the default \<open>true\<close>.\<close>

definition ProcessMouseMovement_default :: "Camera \<Rightarrow> real \<Rightarrow> real \<Rightarrow> Camera" where
  "ProcessMouseMovement_default c xoffset yoffset = ProcessMouseMovement c xoffset yoffset True"

text \<open>The keys \<open>ProcessKeyboard\<close> polls; a window is what \<open>glfwGetKey\<close> answers
  for each of them (\<open>True\<close> for \<open>GLFW_PRESS\<close>).\<close>

datatype key = KEY_W | KEY_S | KEY_A | KEY_D | KEY_SPACE | KEY_LEFT_SHIFT

type_synonym GLFWwindow = "key \<Rightarrow> bool"

definition vsub :: "vec3 \<Rightarrow> vec3 \<Rightarrow> vec3" where
  "vsub a b = Vec3 (vx a - vx b) (vy a - vy b) (vz a - vz b)"

definition ProcessKeyboard :: "Camera \<Rightarrow> GLFWwindow \<Rightarrow> real \<Rightarrow> Camera" where
  "ProcessKeyboard c window deltaTime =
     (let velocity = speed c * deltaTime;
          c = (if window KEY_W
               then c\<lparr>cameraPos := vadd (cameraPos c) (vscale (cameraFront c) velocity)\<rparr> else c);
          c = (if window KEY_S
               then c\<lparr>cameraPos := vsub (cameraPos c) (vscale (cameraFront c) velocity)\<rparr> else c);
          c = (if window KEY_A
               then c\<lparr>cameraPos := vsub (cameraPos c)
                      (vscale (normalize_vec3 (cross (cameraFront c) (cameraUp c))) velocity)\<rparr> else c);
          c = (if window KEY_D
               then c\<lparr>cameraPos := vadd (cameraPos c)
                      (vscale (normalize_vec3 (cross (cameraFront c) (cameraUp c))) velocity)\<rparr> else c);
          c = (if window KEY_SPACE
               then c\<lparr>cameraPos := vadd (cameraPos c) (vscale (cameraUp c) velocity)\<rparr> else c);
          c = (if window KEY_LEFT_SHIFT
               then c\<lparr>cameraPos := vsub (cameraPos c) (vscale (cameraUp c) velocity)\<rparr> else c)
      in c)"

text \<open>What can happen to a camera after its construction: the two public methods that
  change it. \<open>camera_run\<close> applies a sequence of such calls in order.\<close>

datatype camera_call = MouseMovement real real bool | Keyboard GLFWwindow real

fun apply_call :: "Camera \<Rightarrow> camera_call \<Rightarrow> Camera" where
  "apply_call c (MouseMovement xoffset yoffset constrainPitch) =
     ProcessMouseMovement c xoffset yoffset constrainPitch"
| "apply_call c (Keyboard window deltaTime) = ProcessKeyboard c window deltaTime"

definition camera_run :: "Camera \<Rightarrow> camera_call list \<Rightarrow> Camera" where
  "camera_run c calls = foldl apply_call c calls"

text \<open>A sequence of \<open>ProcessMouseMovement(xoffset, yoffset)\<close> calls, and of
  \<open>ProcessMouseMovement(xoffset, yoffset, false)\<close> calls.\<close>

definition mouse_moves :: "Camera \<Rightarrow> (real \<times> real) list \<Rightarrow> Camera" where
  "mouse_moves c offsets = foldl (\<lambda>c (dx, dy). ProcessMouseMovement_default c dx dy) c offsets"

definition mouse_moves_unconstrained :: "Camera \<Rightarrow> (real \<times> real) list \<Rightarrow> Camera" where
  "mouse_moves_unconstrained c offsets =
     foldl (\<lambda>c (dx, dy). ProcessMouseMovement c dx dy False) c offsets"

text \<open>The camera's invariant as the specification words it.\<close>

definition front_ok :: "Camera \<Rightarrow> bool" where
  "front_ok c \<longleftrightarrow> vlength (cameraFront c) = 1
     \<and> cameraFront c = normalize_vec3 (front_of (yaw c) (pitch c))"

section \<open>The graphics API as a recording collaborator\<close>

text \<open>
  The OpenGL functions the classes call are not part of the repository. They are modelled
  as a collaborator that records every call, hands out object names from counters (a name
  is never handed out twice; 0 is OpenGL's "no object") and answers the compile and link
  status queries from two fields of its own. Names are \<open>unsigned int\<close> in the source and
  \<^typ>\<open>nat\<close> here.
\<close>

datatype shader_source =
  vertexShaderSource | fragmentShaderSource | groundVertexShaderSource | groundFragmentShaderSource

datatype shader_kind = VERTEX_SHADER | FRAGMENT_SHADER

datatype gl_call =
    GenVertexArrays nat
  | GenBuffers nat
  | BindVertexArray nat
  | BindBuffer nat
  | BufferData int "real list"
  | VertexAttribPointer nat int int
  | EnableVertexAttribArray nat
  | DeleteVertexArrays nat
  | DeleteBuffers nat
  | DrawArrays int int
  | CreateShader shader_kind nat
  | ShaderSource nat shader_source
  | CompileShader nat
  | CreateProgram nat
  | AttachShader nat nat
  | LinkProgram nat
  | DeleteShader nat

datatype cout_line = VERTEX_COMPILATION_FAILED | FRAGMENT_COMPILATION_FAILED | PROGRAM_LINKING_FAILED

record gl_state =
  calls :: "gl_call list"
  next_vao :: nat
  next_buffer :: nat
  next_shader :: nat
  compiles :: "shader_source \<Rightarrow> bool"
  links :: bool
  cout :: "cout_line list"

definition gl_new :: "(shader_source \<Rightarrow> bool) \<Rightarrow> bool \<Rightarrow> gl_state" where
  "gl_new cs l =
     \<lparr> calls = [], next_vao = 1, next_buffer = 1, next_shader = 1,
       compiles = cs, links = l, cout = [] \<rparr>"

definition gl :: "gl_call \<Rightarrow> gl_state \<Rightarrow> gl_state" where
  "gl call g = g\<lparr>calls := calls g @ [call]\<rparr>"

definition glGenVertexArrays :: "gl_state \<Rightarrow> nat \<times> gl_state" where
  "glGenVertexArrays g =
     (next_vao g, gl (GenVertexArrays (next_vao g)) (g\<lparr>next_vao := next_vao g + 1\<rparr>))"

definition glGenBuffers :: "gl_state \<Rightarrow> nat \<times> gl_state" where
  "glGenBuffers g =
     (next_buffer g, gl (GenBuffers (next_buffer g)) (g\<lparr>next_buffer := next_buffer g + 1\<rparr>))"

definition glCreateShader :: "shader_kind \<Rightarrow> gl_state \<Rightarrow> nat \<times> gl_state" where
  "glCreateShader k g =
     (next_shader g, gl (CreateShader k (next_shader g)) (g\<lparr>next_shader := next_shader g + 1\<rparr>))"

definition glCreateProgram :: "gl_state \<Rightarrow> nat \<times> gl_state" where
  "glCreateProgram g =
     (next_shader g, gl (CreateProgram (next_shader g)) (g\<lparr>next_shader := next_shader g + 1\<rparr>))"

definition print :: "cout_line \<Rightarrow> gl_state \<Rightarrow> gl_state" where
  "print l g = g\<lparr>cout := cout g @ [l]\<rparr>"

text \<open>What the recording shows: the names created and deleted, and the buffers uploaded.\<close>

fun created_vaos :: "gl_call list \<Rightarrow> nat list" where
  "created_vaos [] = []"
| "created_vaos (GenVertexArrays h # cs) = h # created_vaos cs"
| "created_vaos (_ # cs) = created_vaos cs"

fun created_buffers :: "gl_call list \<Rightarrow> nat list" where
  "created_buffers [] = []"
| "created_buffers (GenBuffers h # cs) = h # created_buffers cs"
| "created_buffers (_ # cs) = created_buffers cs"

fun deleted_vaos :: "gl_call list \<Rightarrow> nat list" where
  "deleted_vaos [] = []"
| "deleted_vaos (DeleteVertexArrays h # cs) = h # deleted_vaos cs"
| "deleted_vaos (_ # cs) = deleted_vaos cs"

fun deleted_buffers :: "gl_call list \<Rightarrow> nat list" where
  "deleted_buffers [] = []"
| "deleted_buffers (DeleteBuffers h # cs) = h # deleted_buffers cs"
| "deleted_buffers (_ # cs) = deleted_buffers cs"

fun uploaded :: "gl_call list \<Rightarrow> real list list" where
  "uploaded [] = []"
| "uploaded (BufferData n d # cs) = d # uploaded cs"
| "uploaded (_ # cs) = uploaded cs"

section \<open>GPU meshes (class Object)\<close>

record Object =
  VBO :: nat
  VAO :: nat
  vertexCount :: int

text \<open>
  \<open>Object::Object(float* vertices, int size)\<close>. \<open>glBufferData\<close> reads
  \<open>size * sizeof(float)\<close> bytes, the first \<open>size\<close> floats, at \<open>vertices\<close>; the
  recording keeps the byte count and those floats.
\<close>

definition Object_new :: "real list \<Rightarrow> int \<Rightarrow> gl_state \<Rightarrow> Object \<times> gl_state" where
  "Object_new vertices sz g =
     (let vertexCount' = sz sdiv 3;
          (VAO', g) = glGenVertexArrays g;
          (VBO', g) = glGenBuffers g;
          g = gl (BindVertexArray VAO') g;
          g = gl (BindBuffer VBO') g;
          g = gl (BufferData (sz * 4) (take (nat sz) vertices)) g;
          g = gl (VertexAttribPointer 0 3 (3 * 4)) g;
          g = gl (EnableVertexAttribArray 0) g;
          g = gl (BindBuffer 0) g;
          g = gl (BindVertexArray 0) g
      in (\<lparr> VBO = VBO', VAO = VAO', vertexCount = vertexCount' \<rparr>, g))"

text \<open>\<open>Object::~Object()\<close>.\<close>

definition Object_delete :: "Object \<Rightarrow> gl_state \<Rightarrow> gl_state" where
  "Object_delete obj g =
     (let g = gl (DeleteVertexArrays (VAO obj)) g;
          g = gl (DeleteBuffers (VBO obj)) g
      in g)"

definition Draw :: "Object \<Rightarrow> gl_state \<Rightarrow> gl_state" where
  "Draw obj g =
     (let g = gl (BindVertexArray (VAO obj)) g;
          g = gl (DrawArrays 0 (vertexCount obj)) g;
          g = gl (BindVertexArray 0) g
      in g)"

text \<open>
  The class declares no copy constructor and no copy assignment (no\_test1.cpp, lines 356
  to 388: a constructor, a destructor and \<open>Draw\<close>), so C++ supplies the implicit public
  ones, which copy \<open>VBO\<close>, \<open>VAO\<close> and \<open>vertexCount\<close> and call nothing.
\<close>

definition Object_copy :: "Object \<Rightarrow> gl_state \<Rightarrow> Object \<times> gl_state" where
  "Object_copy obj g = (\<lparr> VBO = VBO obj, VAO = VAO obj, vertexCount = vertexCount obj \<rparr>, g)"

text \<open>
  A program over the public interface of \<open>Object\<close>, as a sequence of steps on the objects
  it has made so far. An object is named by its position in the order of creation; its
  slot is \<open>None\<close> once its destructor has run, which C++ does once for an object. A step
  that names no live object does nothing.
\<close>

datatype object_step =
    Construct "real list" int
  | CopyConstruct nat
  | CallDraw nat
  | Destroy nat

record world =
  objects :: "Object option list"
  gpu :: gl_state

fun step_object :: "world \<Rightarrow> object_step \<Rightarrow> world" where
  "step_object w (Construct vertices sz) =
     (let (obj, g) = Object_new vertices sz (gpu w)
      in \<lparr> objects = objects w @ [Some obj], gpu = g \<rparr>)"
| "step_object w (CopyConstruct k) =
     (if k < length (objects w) then
        (case objects w ! k of
           None \<Rightarrow> w
         | Some src \<Rightarrow>
             (let (obj, g) = Object_copy src (gpu w)
              in \<lparr> objects = objects w @ [Some obj], gpu = g \<rparr>))
      else w)"
| "step_object w (CallDraw k) =
     (if k < length (objects w) then
        (case objects w ! k of
           None \<Rightarrow> w
         | Some obj \<Rightarrow> w\<lparr>gpu := Draw obj (gpu w)\<rparr>)
      else w)"
| "step_object w (Destroy k) =
     (if k < length (objects w) then
        (case objects w ! k of
           None \<Rightarrow> w
         | Some obj \<Rightarrow> \<lparr> objects = (objects w)[k := None], gpu = Object_delete obj (gpu w) \<rparr>)
      else w)"

text \<open>A program starts with no object and a collaborator that has recorded nothing.\<close>

definition world_new :: "(shader_source \<Rightarrow> bool) \<Rightarrow> bool \<Rightarrow> world" where
  "world_new cs l = \<lparr> objects = [], gpu = gl_new cs l \<rparr>"

definition object_run :: "world \<Rightarrow> object_step list \<Rightarrow> world" where
  "object_run w steps = foldl step_object w steps"

fun copies :: "object_step \<Rightarrow> bool" where
  "copies (CopyConstruct k) = True"
| "copies _ = False"

text \<open>The objects whose destructor has not run yet.\<close>

fun live :: "Object option list \<Rightarrow> Object list" where
  "live [] = []"
| "live (None # os) = live os"
| "live (Some obj # os) = obj # live os"

text \<open>
  Names in use and names released, for a program that never copies: no name occurs twice
  among them, and every one was handed out before the collaborator's next name.
\<close>

definition names_ok :: "nat list \<Rightarrow> nat list \<Rightarrow> nat \<Rightarrow> bool" where
  "names_ok alive deleted next \<longleftrightarrow>
     distinct (alive @ deleted) \<and> list_all (\<lambda>h. h < next) (alive @ deleted)"

definition world_ok :: "world \<Rightarrow> bool" where
  "world_ok w \<longleftrightarrow>
     names_ok (map VAO (live (objects w))) (deleted_vaos (calls (gpu w))) (next_vao (gpu w))
   \<and> names_ok (map VBO (live (objects w))) (deleted_buffers (calls (gpu w))) (next_buffer (gpu w))"

section \<open>Shader programs (class Program)\<close>

record Program =
  vertexShader :: nat
  fragmentShader :: nat
  shaderProgram :: nat

definition createShaderProgram ::
    "shader_source \<Rightarrow> shader_source \<Rightarrow> gl_state \<Rightarrow> Program \<times> gl_state" where
  "createShaderProgram vertexSource fragmentSource g =
     (let (vertexShader', g) = glCreateShader VERTEX_SHADER g;
          g = gl (ShaderSource vertexShader' vertexSource) g;
          g = gl (CompileShader vertexShader') g;
          g = (if \<not> compiles g vertexSource then print VERTEX_COMPILATION_FAILED g else g);
          (fragmentShader', g) = glCreateShader FRAGMENT_SHADER g;
          g = gl (ShaderSource fragmentShader' fragmentSource) g;
          g = gl (CompileShader fragmentShader') g;
          g = (if \<not> compiles g fragmentSource then print FRAGMENT_COMPILATION_FAILED g else g);
          (shaderProgram', g) = glCreateProgram g;
          g = gl (AttachShader shaderProgram' vertexShader') g;
          g = gl (AttachShader shaderProgram' fragmentShader') g;
          g = gl (LinkProgram shaderProgram') g;
          g = (if \<not> links g then print PROGRAM_LINKING_FAILED g else g);
          g = gl (DeleteShader vertexShader') g;
          g = gl (DeleteShader fragmentShader') g
      in (\<lparr> vertexShader = vertexShader', fragmentShader = fragmentShader',
            shaderProgram = shaderProgram' \<rparr>, g))"

definition Program_new :: "shader_source \<Rightarrow> shader_source \<Rightarrow> gl_state \<Rightarrow> Program \<times> gl_state" where
  "Program_new vertexSource fragmentSource g = createShaderProgram vertexSource fragmentSource g"

section \<open>The flat-world ground (test3.cpp, class Ground)\<close>

record Ground =
  base :: Object
  groundprogram :: Program

text \<open>\<open>Ground(float size, const char* vertexSource, const char* fragmentSource)\<close>: the
  base \<open>Object\<close> first, then the member \<open>groundprogram\<close>.\<close>

definition Ground_new3 ::
    "real \<Rightarrow> shader_source \<Rightarrow> shader_source \<Rightarrow> gl_state \<Rightarrow> Ground \<times> gl_state" where
  "Ground_new3 sz vertexSource fragmentSource g =
     (let (obj, g) = Object_new (generateVertices_flat sz)
                       (int (length (generateVertices_flat sz))) g;
          (prog, g) = Program_new vertexSource fragmentSource g
      in (\<lparr> base = obj, groundprogram = prog \<rparr>, g))"

text \<open>\<open>Ground(float size = 20.0f) : Ground(20.0f, vertexShaderSource, fragmentShaderSource)\<close>.\<close>

definition Ground_new :: "real \<Rightarrow> gl_state \<Rightarrow> Ground \<times> gl_state" where
  "Ground_new sz g = Ground_new3 20 vertexShaderSource fragmentShaderSource g"

section \<open>Cells on their own\<close>

text \<open>The floats one pass of an inner loop body appends.\<close>

definition cell_floats :: "vec3 \<Rightarrow> vec3 \<Rightarrow> vec3 \<Rightarrow> real \<Rightarrow> int \<Rightarrow> int \<Rightarrow> real list" where
  "cell_floats normal side1 side2 step i j = addFace_cell normal side1 side2 step i j []"

definition ground_floats :: "real \<Rightarrow> real \<Rightarrow> int \<Rightarrow> int \<Rightarrow> real list" where
  "ground_floats sz step i j = ground_cell sz step i j []"

section \<open>Loops that append\<close>

lemma for_loop_fold: "for_loop i n body s = fold body [i..n - 1] s"
proof (induction i n body s rule: for_loop.induct)
  case (1 i n body s)
  show ?case
  proof (cases "i < n")
    case True
    then have "[i..n - 1] = i # [i + 1..n - 1]"
      by (simp add: upto_rec1)
    with True 1 show ?thesis
      by (simp add: for_loop.simps [of i])
  next
    case False
    then show ?thesis
      by (simp add: for_loop.simps [of i])
  qed
qed

lemma fold_append_concat:
  "fold (\<lambda>k s. s @ f k) ks s = s @ concat (map f ks)"
  by (induction ks arbitrary: s) simp_all

lemma for_loop_append:
  "for_loop i n (\<lambda>k s. s @ f k) s = s @ concat (map f [i..n - 1])"
  by (simp add: for_loop_fold fold_append_concat)

lemma for_loop_append_fun:
  "for_loop i n (\<lambda>k s. s @ f k) = (\<lambda>s. s @ concat (map f [i..n - 1]))"
  by (rule ext) (rule for_loop_append)

section \<open>Reading a buffer vertex by vertex\<close>

lemma vertices_of_append:
  "length a mod 3 = 0 \<Longrightarrow> vertices_of (a @ b) = vertices_of a @ vertices_of b"
proof (induction a rule: vertices_of.induct)
  case (1 a b c rest)
  then show ?case by simp
qed simp_all

lemma length_vertices_of: "length (vertices_of a) = length a div 3"
  by (induction a rule: vertices_of.induct) simp_all

section \<open>The subdivided cube: size and bounds\<close>

lemma addFace_cell_append:
  "addFace_cell normal side1 side2 step i j vertices
     = vertices @ cell_floats normal side1 side2 step i j"
  by (simp add: addFace_cell_def cell_floats_def Let_def)

lemma addFace_concat:
  "addFace vertices normal res =
     vertices @ concat (map (\<lambda>i. concat (map (\<lambda>j.
        cell_floats normal (Vec3 (vy normal) (vz normal) (vx normal))
          (cross normal (Vec3 (vy normal) (vz normal) (vx normal))) (1 / of_int res) i j)
        [0..res - 1])) [0..res - 1])"
  unfolding addFace_def Let_def
  by (simp add: addFace_cell_append [abs_def] for_loop_append_fun for_loop_append)

lemma length_cell_floats: "length (cell_floats n s1 s2 st i j) = 18"
  by (simp add: cell_floats_def addFace_cell_def Let_def)

lemma length_concat_const:
  "(\<And>x. x \<in> set xs \<Longrightarrow> length (f x) = c) \<Longrightarrow> length (concat (map f xs)) = c * length xs"
  by (induction xs) simp_all

lemma length_addFace:
  "0 \<le> res \<Longrightarrow> length (addFace vertices normal res) = length vertices + 18 * nat res * nat res"
  by (simp add: addFace_concat length_concat_const length_cell_floats)

lemma length_generateSubdividedCube:
  "0 \<le> res \<Longrightarrow> length (generateSubdividedCube res) = 6 * (nat res)\<^sup>2 * 18"
  by (simp add: generateSubdividedCube_def faces_def length_addFace power2_eq_square)


lemma unit_param:
  assumes "1 \<le> res" "0 \<le> u" "u \<le> res"
  shows "0 \<le> real_of_int u * (1 / real_of_int res)" "real_of_int u * (1 / real_of_int res) \<le> 1"
proof -
  from assms have r: "0 < real_of_int res" by simp
  from assms show "0 \<le> real_of_int u * (1 / real_of_int res)" by simp
  from assms r show "real_of_int u * (1 / real_of_int res) \<le> 1"
    by (simp add: divide_le_eq)
qed

lemma point_in_cube:
  assumes n: "normal \<in> set faces" and s: "0 \<le> s" "s \<le> 1" and t: "0 \<le> t" "t \<le> 1"
  shows "in_cube (vadd (vadd (vscale normal 0.5)
            (vscale (Vec3 (vy normal) (vz normal) (vx normal)) (s - 0.5)))
            (vscale (cross normal (Vec3 (vy normal) (vz normal) (vx normal))) (t - 0.5)))"
proof -
  from n consider "normal = Vec3 1 0 0" | "normal = Vec3 (-1) 0 0" | "normal = Vec3 0 1 0"
    | "normal = Vec3 0 (-1) 0" | "normal = Vec3 0 0 1" | "normal = Vec3 0 0 (-1)"
    by (auto simp: faces_def)
  then show ?thesis
    using s t
    by cases (simp_all add: in_cube_def vadd_def vscale_def cross_def)
qed

lemma getPoint_in_cube:
  assumes n: "normal \<in> set faces" and res: "1 \<le> res"
    and u: "0 \<le> u" "u \<le> res" and v: "0 \<le> v" "v \<le> res"
  shows "in_cube (getPoint normal (Vec3 (vy normal) (vz normal) (vx normal))
           (cross normal (Vec3 (vy normal) (vz normal) (vx normal))) (1 / of_int res) u v)"
  unfolding getPoint_def
  by (rule point_in_cube [OF n unit_param [OF res u] unit_param [OF res v]])

lemma vertices_of_cell_floats:
  "vertices_of (cell_floats n s1 s2 st i j) =
     [getPoint n s1 s2 st i j, getPoint n s1 s2 st (i + 1) j, getPoint n s1 s2 st i (j + 1),
      getPoint n s1 s2 st (i + 1) j, getPoint n s1 s2 st (i + 1) (j + 1),
      getPoint n s1 s2 st i (j + 1)]"
  by (simp add: cell_floats_def addFace_cell_def Let_def)

lemma vertices_of_concat:
  "(\<And>x. x \<in> set xs \<Longrightarrow> length (f x) mod 3 = 0) \<Longrightarrow>
     vertices_of (concat (map f xs)) = concat (map (\<lambda>x. vertices_of (f x)) xs)"
  by (induction xs) (simp_all add: vertices_of_append)

lemma length_concat_mod3:
  "(\<And>x. x \<in> set xs \<Longrightarrow> length (f x) mod 3 = 0) \<Longrightarrow> length (concat (map f xs)) mod 3 = 0"
  by (induction xs) (simp_all add: mod_add_eq [symmetric])

lemma vertices_of_addFace:
  assumes "length vertices mod 3 = 0"
  shows "vertices_of (addFace vertices normal res) =
     vertices_of vertices @ concat (map (\<lambda>i. concat (map (\<lambda>j.
        vertices_of (cell_floats normal (Vec3 (vy normal) (vz normal) (vx normal))
          (cross normal (Vec3 (vy normal) (vz normal) (vx normal))) (1 / of_int res) i j))
        [0..res - 1])) [0..res - 1])"
  using assms
  by (simp add: addFace_concat vertices_of_append vertices_of_concat length_concat_mod3
      length_cell_floats)

lemma addFace_in_cube:
  assumes len: "length vertices mod 3 = 0" and old: "\<forall>p \<in> set (vertices_of vertices). in_cube p"
    and n: "normal \<in> set faces" and res: "1 \<le> res"
  shows "\<forall>p \<in> set (vertices_of (addFace vertices normal res)). in_cube p"
  using old getPoint_in_cube [OF n res]
  by (auto simp: vertices_of_addFace [OF len] vertices_of_cell_floats)

lemma length_addFace_mod3:
  "length vertices mod 3 = 0 \<Longrightarrow> length (addFace vertices normal res) mod 3 = 0"
  by (simp add: addFace_concat length_concat_mod3 length_cell_floats
      mod_add_eq [symmetric])

lemma fold_addFace_in_cube:
  assumes "set fs \<subseteq> set faces" "1 \<le> res" "length vertices mod 3 = 0"
    "\<forall>p \<in> set (vertices_of vertices). in_cube p"
  shows "\<forall>p \<in> set (vertices_of (fold (\<lambda>f vertices. addFace vertices f res) fs vertices)).
           in_cube p"
  using assms
proof (induction fs arbitrary: vertices)
  case Nil
  then show ?case by simp
next
  case (Cons f fs)
  show ?case
    unfolding fold_simps
  proof (rule Cons.IH)
    show "set fs \<subseteq> set faces" using Cons.prems by simp
    show "1 \<le> res" by fact
    show "length (addFace vertices f res) mod 3 = 0"
      using Cons.prems by (simp add: length_addFace_mod3)
    show "\<forall>p \<in> set (vertices_of (addFace vertices f res)). in_cube p"
      using Cons.prems by (intro addFace_in_cube) simp_all
  qed
qed

text \<open>
  Claim C1. For every resolution \<open>R \<ge> 1\<close> the subdivided-cube generator returns
  \<open>6 * R\<^sup>2 * 18\<close> floats, which are \<open>6 * R\<^sup>2 * 6\<close> vertices, and every vertex lies in
  the cube \<open>[-0.5, 0.5]\<^sup>3\<close> (exactly, in exact arithmetic).
\<close>

theorem generateSubdividedCube_ok:
  assumes "1 \<le> R"
  shows "length (generateSubdividedCube R) = nat (6 * R\<^sup>2 * 18)
    \<and> length (vertices_of (generateSubdividedCube R)) = nat (6 * R\<^sup>2 * 6)
    \<and> (\<forall>p \<in> set (vertices_of (generateSubdividedCube R)). in_cube p)"
proof -
  from assms have len: "length (generateSubdividedCube R) = 6 * (nat R)\<^sup>2 * 18"
    by (simp add: length_generateSubdividedCube)
  from assms have sq: "nat (R\<^sup>2) = (nat R)\<^sup>2"
    by (simp add: nat_power_eq)
  have 1: "length (generateSubdividedCube R) = nat (6 * R\<^sup>2 * 18)"
    using len sq by (simp add: nat_mult_distrib)
  have 2: "length (vertices_of (generateSubdividedCube R)) = nat (6 * R\<^sup>2 * 6)"
    using len sq by (simp add: length_vertices_of nat_mult_distrib)
  have 3: "\<forall>p \<in> set (vertices_of (generateSubdividedCube R)). in_cube p"
    unfolding generateSubdividedCube_def
    using assms by (intro fold_addFace_in_cube) simp_all
  from 1 2 3 show ?thesis by blast
qed


theorem generateSubdividedCube_ok_witness:
  "(1::int) \<le> 1
   \<and> length (generateSubdividedCube 1) = 108
   \<and> length (vertices_of (generateSubdividedCube 1)) = 36
   \<and> Vec3 (1/2) (1/2) (- (1/2)) \<in> set (vertices_of (generateSubdividedCube 1))
   \<and> in_cube (Vec3 (1/2) (1/2) (- (1/2)))"
proof -
  have mem: "Vec3 (1/2) (1/2) (- (1/2)) \<in> set (vertices_of (generateSubdividedCube 1))"
    by (simp add: generateSubdividedCube_def faces_def addFace_def Let_def for_loop_fold
        addFace_cell_def getPoint_def vadd_def vscale_def cross_def)
  from generateSubdividedCube_ok [of 1] mem show ?thesis
    by auto
qed

section \<open>The curved ground grid: size and bounds\<close>

lemma ground_cell_append:
  "ground_cell sz step i j vertices = vertices @ ground_floats sz step i j"
  by (simp add: ground_cell_def ground_floats_def Let_def)

lemma generateVertices_concat:
  "generateVertices sz =
     concat (map (\<lambda>i. concat (map (\<lambda>j. ground_floats sz (sz * 2 / 500) i j) [0..499])) [0..499])"
  unfolding generateVertices_def Let_def
  by (simp add: ground_cell_append [abs_def] for_loop_append_fun for_loop_append)

lemma length_ground_floats: "length (ground_floats sz step i j) = 18"
  by (simp add: ground_floats_def ground_cell_def Let_def)

lemma length_generateVertices: "length (generateVertices sz) = 4500000"
  by (simp add: generateVertices_concat length_concat_const length_ground_floats)

lemma vertices_of_ground_floats:
  "vertices_of (ground_floats sz step i j) =
     [Vec3 (- sz + of_int i * step) (- 1) (- sz + of_int j * step),
      Vec3 (- sz + of_int i * step + step) (- 1) (- sz + of_int j * step),
      Vec3 (- sz + of_int i * step) (- 1) (- sz + of_int j * step + step),
      Vec3 (- sz + of_int i * step + step) (- 1) (- sz + of_int j * step),
      Vec3 (- sz + of_int i * step + step) (- 1) (- sz + of_int j * step + step),
      Vec3 (- sz + of_int i * step) (- 1) (- sz + of_int j * step + step)]"
  by (simp add: ground_floats_def ground_cell_def Let_def)

lemma vertices_of_generateVertices:
  "vertices_of (generateVertices sz) =
     concat (map (\<lambda>i. concat (map (\<lambda>j.
        vertices_of (ground_floats sz (sz * 2 / 500) i j)) [0..499])) [0..499])"
  by (simp add: generateVertices_concat vertices_of_concat length_concat_mod3
      length_ground_floats)

lemma ground_vertex_cases:
  assumes "p \<in> set (vertices_of (generateVertices sz))"
  obtains i j where "0 \<le> i" "i \<le> 499" "0 \<le> j" "j \<le> 499"
    "vx p = - sz + of_int i * (sz * 2 / 500) \<or> vx p = - sz + of_int i * (sz * 2 / 500) + sz * 2 / 500"
    "vy p = - 1"
    "vz p = - sz + of_int j * (sz * 2 / 500) \<or> vz p = - sz + of_int j * (sz * 2 / 500) + sz * 2 / 500"
  using assms
  by (auto simp: vertices_of_generateVertices vertices_of_ground_floats)

lemma ground_coordinate_bounds:
  fixes sz :: real
  assumes "0 \<le> sz" "0 \<le> i" "i \<le> 499"
  shows "- sz \<le> - sz + of_int i * (sz * 2 / 500)"
    and "- sz + of_int i * (sz * 2 / 500) \<le> sz"
    and "- sz \<le> - sz + of_int i * (sz * 2 / 500) + sz * 2 / 500"
    and "- sz + of_int i * (sz * 2 / 500) + sz * 2 / 500 \<le> sz"
proof -
  define t where "t = real_of_int i * (sz * 2 / 500)"
  have pos: "0 \<le> sz * 2 / 500" using assms by simp
  have lo: "0 \<le> t"
    unfolding t_def using assms pos by (intro mult_nonneg_nonneg) simp_all
  have "(real_of_int i + 1) * (sz * 2 / 500) \<le> 500 * (sz * 2 / 500)"
    using assms pos by (intro mult_right_mono) simp_all
  then have hi: "t + sz * 2 / 500 \<le> sz * 2"
    by (simp add: t_def algebra_simps)
  show "- sz \<le> - sz + of_int i * (sz * 2 / 500)"
    using lo by (simp add: t_def)
  show "- sz + of_int i * (sz * 2 / 500) \<le> sz"
    using hi pos unfolding t_def by linarith
  show "- sz \<le> - sz + of_int i * (sz * 2 / 500) + sz * 2 / 500"
    using lo pos unfolding t_def by linarith
  show "- sz + of_int i * (sz * 2 / 500) + sz * 2 / 500 \<le> sz"
    using hi unfolding t_def by linarith
qed

lemma ground_vertex_bounds:
  assumes "0 \<le> sz" "p \<in> set (vertices_of (generateVertices sz))"
  shows "vy p = - 1 \<and> - sz \<le> vx p \<and> vx p \<le> sz \<and> - sz \<le> vz p \<and> vz p \<le> sz"
proof -
  from assms(2) obtain i j where ij: "0 \<le> i" "i \<le> 499" "0 \<le> j" "j \<le> 499"
    and x: "vx p = - sz + of_int i * (sz * 2 / 500) \<or> vx p = - sz + of_int i * (sz * 2 / 500) + sz * 2 / 500"
    and y: "vy p = - 1"
    and z: "vz p = - sz + of_int j * (sz * 2 / 500) \<or> vz p = - sz + of_int j * (sz * 2 / 500) + sz * 2 / 500"
    by (rule ground_vertex_cases)
  from x ground_coordinate_bounds [OF assms(1) ij(1,2)]
  have "- sz \<le> vx p \<and> vx p \<le> sz" by auto
  moreover from z ground_coordinate_bounds [OF assms(1) ij(3,4)]
  have "- sz \<le> vz p \<and> vz p \<le> sz" by auto
  ultimately show ?thesis using y by simp
qed

lemma in_concat_grid:
  "i \<in> set xs \<Longrightarrow> j \<in> set ys \<Longrightarrow> p \<in> set (f i j) \<Longrightarrow>
     p \<in> set (concat (map (\<lambda>i. concat (map (f i) ys)) xs))"
  by auto

lemma ground_vertex_mem:
  assumes "0 \<le> i" "i \<le> 499" "0 \<le> j" "j \<le> 499"
  shows "Vec3 (- sz + of_int i * (sz * 2 / 500)) (- 1) (- sz + of_int j * (sz * 2 / 500))
           \<in> set (vertices_of (generateVertices sz))"
    and "Vec3 (- sz + of_int i * (sz * 2 / 500) + sz * 2 / 500) (- 1) (- sz + of_int j * (sz * 2 / 500))
           \<in> set (vertices_of (generateVertices sz))"
proof -
  from assms have i: "i \<in> set [0..499]" and j: "j \<in> set [0..499]" by simp_all
  show "Vec3 (- sz + of_int i * (sz * 2 / 500)) (- 1) (- sz + of_int j * (sz * 2 / 500))
           \<in> set (vertices_of (generateVertices sz))"
    unfolding vertices_of_generateVertices
    by (rule in_concat_grid [OF i j]) (simp add: vertices_of_ground_floats)
  show "Vec3 (- sz + of_int i * (sz * 2 / 500) + sz * 2 / 500) (- 1) (- sz + of_int j * (sz * 2 / 500))
           \<in> set (vertices_of (generateVertices sz))"
    unfolding vertices_of_generateVertices
    by (rule in_concat_grid [OF i j]) (simp add: vertices_of_ground_floats)
qed

lemma ground_first: "Vec3 (- 20) (- 1) (- 20) \<in> set (vertices_of (generateVertices 20))"
  using ground_vertex_mem(1) [of 0 0 20] by simp

lemma ground_last: "Vec3 20 (- 1) (- 20) \<in> set (vertices_of (generateVertices 20))"
  using ground_vertex_mem(2) [of 499 0 20] by simp

text \<open>
  Claim C2. The curved ground generator (resolution 500) with half-extent \<open>S \<ge> 0\<close>:
  every vertex has Y equal to \<open>-1\<close> and X and Z within \<open>[-S, S]\<close> (exactly, so within
  any tolerance); for \<open>S = 20\<close> the buffer holds \<open>500 * 500 * 6 * 3 = 4500000\<close> floats, and
  the least and greatest X are \<open>-20\<close> and \<open>20\<close>.
\<close>

theorem generateVertices_ok:
  assumes "0 \<le> S"
  shows "(\<forall>p \<in> set (vertices_of (generateVertices S)).
            vy p = - 1 \<and> - S \<le> vx p \<and> vx p \<le> S \<and> - S \<le> vz p \<and> vz p \<le> S)
    \<and> length (generateVertices 20) = 500 * 500 * 6 * 3
    \<and> length (generateVertices 20) = 4500000
    \<and> Min (vx ` set (vertices_of (generateVertices 20))) = - 20
    \<and> Max (vx ` set (vertices_of (generateVertices 20))) = 20"
proof -
  have 1: "\<forall>p \<in> set (vertices_of (generateVertices S)).
            vy p = - 1 \<and> - S \<le> vx p \<and> vx p \<le> S \<and> - S \<le> vz p \<and> vz p \<le> S"
    using ground_vertex_bounds [OF assms] by blast
  have b: "- 20 \<le> vx p \<and> vx p \<le> 20" if "p \<in> set (vertices_of (generateVertices 20))" for p
    using ground_vertex_bounds [of 20 p] that by simp
  have 2: "Min (vx ` set (vertices_of (generateVertices 20))) = - 20"
  proof (rule Min_eqI)
    show "finite (vx ` set (vertices_of (generateVertices 20)))" by simp
    show "- 20 \<le> y" if "y \<in> vx ` set (vertices_of (generateVertices 20))" for y
      using that b by auto
    show "- 20 \<in> vx ` set (vertices_of (generateVertices 20))"
      using ground_first by force
  qed
  have 3: "Max (vx ` set (vertices_of (generateVertices 20))) = 20"
  proof (rule Max_eqI)
    show "finite (vx ` set (vertices_of (generateVertices 20)))" by simp
    show "y \<le> 20" if "y \<in> vx ` set (vertices_of (generateVertices 20))" for y
      using that b by auto
    show "20 \<in> vx ` set (vertices_of (generateVertices 20))"
      using ground_last by force
  qed
  from 1 2 3 show ?thesis
    by (simp add: length_generateVertices)
qed

theorem generateVertices_ok_witness:
  "(0::real) \<le> 20
   \<and> Vec3 20 (- 1) (- 20) \<in> set (vertices_of (generateVertices 20))
   \<and> vy (Vec3 20 (- 1) (- 20)) = - 1
   \<and> - 20 \<le> vx (Vec3 20 (- 1) (- 20)) \<and> vx (Vec3 20 (- 1) (- 20)) \<le> 20
   \<and> length (generateVertices 20) = 4500000"
proof -
  have mem: "Vec3 20 (- 1) (- 20) \<in> set (vertices_of (generateVertices 20))"
    using ground_vertex_mem(2) [of 499 0 20] by simp
  from generateVertices_ok [of 20] mem show ?thesis
    by auto
qed

section \<open>The camera: pitch and forward vector\<close>

lemma unit_sphere:
  fixes a b c d :: real
  assumes "a\<^sup>2 + b\<^sup>2 = 1" "c\<^sup>2 + d\<^sup>2 = 1"
  shows "a * c * (a * c) + d * d + b * c * (b * c) = 1"
proof -
  have "a * c * (a * c) + d * d + b * c * (b * c) = (a\<^sup>2 + b\<^sup>2) * c\<^sup>2 + d\<^sup>2"
    by (simp add: power2_eq_square algebra_simps)
  with assms show ?thesis by simp
qed

lemma dot_front_of: "dot (front_of y p) (front_of y p) = 1"
  unfolding dot_def front_of_def vec3.sel
  by (rule unit_sphere) simp_all

lemma normalize_front_of: "normalize_vec3 (front_of y p) = front_of y p"
  by (simp add: normalize_vec3_def dot_front_of vscale_def)

lemma vlength_front_of: "vlength (front_of y p) = 1"
  by (simp add: vlength_def dot_front_of)

lemma front_ok_updateCameraVectors: "front_ok (updateCameraVectors c)"
  by (simp add: front_ok_def updateCameraVectors_def normalize_front_of vlength_front_of)

lemma front_ok_ProcessMouseMovement: "front_ok (ProcessMouseMovement c dx dy cp)"
  by (simp add: ProcessMouseMovement_def Let_def front_ok_updateCameraVectors)

lemma pitch_updateCameraVectors [simp]: "pitch (updateCameraVectors c) = pitch c"
  by (simp add: updateCameraVectors_def)

lemma yaw_updateCameraVectors [simp]: "yaw (updateCameraVectors c) = yaw c"
  by (simp add: updateCameraVectors_def)

lemma pitch_ProcessMouseMovement_True:
  "pitch (ProcessMouseMovement c dx dy True) = max (- 89) (min 89 (pitch c + dy * 0.1))"
  by (simp add: ProcessMouseMovement_def Let_def)

lemma pitch_ProcessMouseMovement_False:
  "pitch (ProcessMouseMovement c dx dy False) = pitch c + dy * 0.1"
  by (simp add: ProcessMouseMovement_def Let_def)

lemma yaw_ProcessMouseMovement:
  "yaw (ProcessMouseMovement c dx dy cp) = yaw c + dx * 0.1"
  by (simp add: ProcessMouseMovement_def Let_def)

lemma cameraFront_ProcessMouseMovement:
  "cameraFront (ProcessMouseMovement c dx dy cp) =
     front_of (yaw (ProcessMouseMovement c dx dy cp)) (pitch (ProcessMouseMovement c dx dy cp))"
  using front_ok_ProcessMouseMovement [of c dx dy cp]
  by (simp add: front_ok_def normalize_front_of)

lemma pitch_clamped_step:
  "- 89 \<le> pitch (ProcessMouseMovement_default c dx dy)
     \<and> pitch (ProcessMouseMovement_default c dx dy) \<le> 89"
  by (simp add: ProcessMouseMovement_default_def pitch_ProcessMouseMovement_True)

lemma pitch_mouse_moves:
  "- 89 \<le> pitch c \<and> pitch c \<le> 89 \<Longrightarrow>
     - 89 \<le> pitch (mouse_moves c offsets) \<and> pitch (mouse_moves c offsets) \<le> 89"
proof (induction offsets arbitrary: c)
  case Nil
  then show ?case by (simp add: mouse_moves_def)
next
  case (Cons m ms)
  obtain dx dy where m: "m = (dx, dy)" by (cases m)
  have "mouse_moves c (m # ms) = mouse_moves (ProcessMouseMovement_default c dx dy) ms"
    by (simp add: mouse_moves_def m)
  with Cons.IH [OF pitch_clamped_step [of c dx dy]] show ?case by simp
qed

text \<open>
  Claim C3. After any finite sequence of \<open>ProcessMouseMovement\<close> calls with the default
  \<open>constrainPitch\<close>, whatever the offsets, the pitch is within \<open>[-89, 89]\<close>: from the
  constructed camera after any sequence, and from any camera at all after at least one call.
\<close>

theorem pitch_always_clamped:
  "- 89 \<le> pitch (mouse_moves Camera_new offsets) \<and> pitch (mouse_moves Camera_new offsets) \<le> 89
   \<and> - 89 \<le> pitch (mouse_moves c ((dx, dy) # offsets))
   \<and> pitch (mouse_moves c ((dx, dy) # offsets)) \<le> 89"
proof -
  have 1: "- 89 \<le> pitch (mouse_moves Camera_new offsets) \<and> pitch (mouse_moves Camera_new offsets) \<le> 89"
    by (rule pitch_mouse_moves) (simp add: Camera_new_def)
  have "mouse_moves c ((dx, dy) # offsets) = mouse_moves (ProcessMouseMovement_default c dx dy) offsets"
    by (simp add: mouse_moves_def)
  with pitch_mouse_moves [OF pitch_clamped_step [of c dx dy], of offsets]
  have 2: "- 89 \<le> pitch (mouse_moves c ((dx, dy) # offsets))
    \<and> pitch (mouse_moves c ((dx, dy) # offsets)) \<le> 89"
    by simp
  from 1 2 show ?thesis by simp
qed

text \<open>
  Claim C4 does not hold right after construction: the constructor sets the forward vector
  to the literal \<open>(0, -0.3, -1)\<close>, of length \<open>sqrt 1.09\<close>, while yaw \<open>-90\<close> and pitch
  \<open>0\<close> give \<open>(0, 0, -1)\<close>; it does not call \<open>updateCameraVectors\<close>.
\<close>

theorem forward_at_construction_counterexample:
  "\<not> front_ok Camera_new
   \<and> vlength (cameraFront Camera_new) \<noteq> 1
   \<and> cameraFront Camera_new \<noteq> normalize_vec3 (front_of (yaw Camera_new) (pitch Camera_new))"
  unfolding front_ok_def normalize_front_of
  by (simp add: Camera_new_def vlength_def dot_def front_of_def radians_def)

lemma ProcessKeyboard_keeps:
  "cameraFront (ProcessKeyboard c w dt) = cameraFront c"
  "yaw (ProcessKeyboard c w dt) = yaw c"
  "pitch (ProcessKeyboard c w dt) = pitch c"
  by (simp_all add: ProcessKeyboard_def Let_def)

lemma front_ok_ProcessKeyboard: "front_ok c \<Longrightarrow> front_ok (ProcessKeyboard c w dt)"
  unfolding front_ok_def ProcessKeyboard_keeps .

lemma front_ok_apply_call: "front_ok c \<Longrightarrow> front_ok (apply_call c e)"
  by (cases e) (simp_all add: front_ok_ProcessMouseMovement front_ok_ProcessKeyboard)

lemma front_ok_camera_run: "front_ok c \<Longrightarrow> front_ok (camera_run c es)"
  unfolding camera_run_def
  by (induction es arbitrary: c) (simp_all add: front_ok_apply_call)

text \<open>
  Claim C4, amended. From a \<open>ProcessMouseMovement\<close> call on, through any further
  \<open>ProcessMouseMovement\<close> and \<open>ProcessKeyboard\<close> calls, the forward vector has unit
  length and equals the vector derived from the current yaw and pitch.
\<close>

theorem forward_unit_after_mouse:
  "front_ok (camera_run (ProcessMouseMovement c dx dy cp) es)"
  by (rule front_ok_camera_run) (rule front_ok_ProcessMouseMovement)

text \<open>
  Claim C5. For every camera state, every offset pair and either value of
  \<open>constrainPitch\<close>, after one \<open>ProcessMouseMovement\<close> call the forward vector has length
  1 (exactly, so within \<open>1e-5\<close>).
\<close>

theorem forward_unit_single_call:
  "vlength (cameraFront (ProcessMouseMovement c dx dy cp)) = 1
   \<and> \<bar>vlength (cameraFront (ProcessMouseMovement c dx dy cp)) - 1\<bar> \<le> 1 / 100000"
  by (simp add: cameraFront_ProcessMouseMovement vlength_front_of)

text \<open>
  Claim C6. From the constructed camera (yaw \<open>-90\<close>, pitch \<open>0\<close>), one call
  \<open>ProcessMouseMovement(100, 0)\<close> adds \<open>100 * 0.1 = 10\<close> to the yaw, which becomes \<open>-80\<close>,
  leaves the pitch at \<open>0\<close>, within the clamp bounds, and sets the forward vector to the
  one derived from the new yaw and pitch, which is not the vector it had before.
\<close>

theorem default_camera_mouse_100_0:
  "yaw Camera_new = - 90 \<and> pitch Camera_new = 0
   \<and> yaw (ProcessMouseMovement_default Camera_new 100 0) = yaw Camera_new + 100 * 0.1
   \<and> yaw (ProcessMouseMovement_default Camera_new 100 0) = - 80
   \<and> pitch (ProcessMouseMovement_default Camera_new 100 0) = 0
   \<and> - 89 \<le> pitch (ProcessMouseMovement_default Camera_new 100 0)
   \<and> pitch (ProcessMouseMovement_default Camera_new 100 0) \<le> 89
   \<and> cameraFront (ProcessMouseMovement_default Camera_new 100 0)
       = normalize_vec3 (front_of (- 80) 0)
   \<and> cameraFront (ProcessMouseMovement_default Camera_new 100 0)
       = Vec3 (cos (radians (- 80))) 0 (sin (radians (- 80)))
   \<and> cameraFront (ProcessMouseMovement_default Camera_new 100 0) \<noteq> cameraFront Camera_new"
  by (simp add: ProcessMouseMovement_default_def yaw_ProcessMouseMovement
      pitch_ProcessMouseMovement_True cameraFront_ProcessMouseMovement normalize_front_of)
     (simp add: Camera_new_def front_of_def radians_def)

lemma pitch_unconstrained_replicate:
  "pitch (mouse_moves_unconstrained c (replicate n (0, 10))) = pitch c + of_nat n"
proof (induction n arbitrary: c)
  case 0
  then show ?case by (simp add: mouse_moves_unconstrained_def)
next
  case (Suc n)
  have "mouse_moves_unconstrained c (replicate (Suc n) (0, 10))
          = mouse_moves_unconstrained (ProcessMouseMovement c 0 10 False) (replicate n (0, 10))"
    by (simp add: mouse_moves_unconstrained_def)
  then show ?case
    by (simp add: Suc.IH pitch_ProcessMouseMovement_False)
qed

text \<open>
  Claim C10. With \<open>constrainPitch = false\<close> no clamp is applied: one call with
  \<open>yoffset = 1000\<close> takes the pitch of the constructed camera to \<open>100\<close>, above \<open>89\<close>;
  one with \<open>-1000\<close> takes it below \<open>-89\<close>; \<open>n\<close> calls with \<open>yoffset = 10\<close> take it to
  \<open>n\<close>, so it passes every bound.
\<close>

theorem pitch_unconstrained:
  "pitch (ProcessMouseMovement Camera_new 0 1000 False) = 100
   \<and> 89 < pitch (mouse_moves_unconstrained Camera_new [(0, 1000)])
   \<and> pitch (mouse_moves_unconstrained Camera_new [(0, - 1000)]) < - 89
   \<and> (\<forall>n. pitch (mouse_moves_unconstrained Camera_new (replicate n (0, 10))) = of_nat n)
   \<and> (\<forall>B. \<exists>offsets. B < pitch (mouse_moves_unconstrained Camera_new offsets))"
proof -
  have 1: "pitch (ProcessMouseMovement Camera_new 0 1000 False) = 100"
    by (simp add: pitch_ProcessMouseMovement_False Camera_new_def)
  have 2: "89 < pitch (mouse_moves_unconstrained Camera_new [(0, 1000)])"
    by (simp add: mouse_moves_unconstrained_def pitch_ProcessMouseMovement_False Camera_new_def)
  have 3: "pitch (mouse_moves_unconstrained Camera_new [(0, - 1000)]) < - 89"
    by (simp add: mouse_moves_unconstrained_def pitch_ProcessMouseMovement_False Camera_new_def)
  have 4: "pitch (mouse_moves_unconstrained Camera_new (replicate n (0, 10))) = of_nat n" for n
    by (simp add: pitch_unconstrained_replicate Camera_new_def)
  have 5: "\<exists>offsets. B < pitch (mouse_moves_unconstrained Camera_new offsets)" for B
  proof -
    obtain n :: nat where "B < of_nat n" using reals_Archimedean2 by blast
    then have "B < pitch (mouse_moves_unconstrained Camera_new (replicate n (0, 10)))"
      by (simp add: 4)
    then show ?thesis by (rule exI)
  qed
  from 1 2 3 4 5 show ?thesis by blast
qed

section \<open>GPU meshes: creation and release\<close>

lemma created_vaos_append: "created_vaos (xs @ ys) = created_vaos xs @ created_vaos ys"
  by (induction xs rule: created_vaos.induct) simp_all

lemma created_buffers_append: "created_buffers (xs @ ys) = created_buffers xs @ created_buffers ys"
  by (induction xs rule: created_buffers.induct) simp_all

lemma deleted_vaos_append: "deleted_vaos (xs @ ys) = deleted_vaos xs @ deleted_vaos ys"
  by (induction xs rule: deleted_vaos.induct) simp_all

lemma deleted_buffers_append: "deleted_buffers (xs @ ys) = deleted_buffers xs @ deleted_buffers ys"
  by (induction xs rule: deleted_buffers.induct) simp_all

lemma uploaded_append: "uploaded (xs @ ys) = uploaded xs @ uploaded ys"
  by (induction xs rule: uploaded.induct) simp_all

lemmas recording_append =
  created_vaos_append created_buffers_append deleted_vaos_append deleted_buffers_append
  uploaded_append

lemma Object_new_calls:
  "calls (snd (Object_new vertices sz g)) =
     calls g @ [GenVertexArrays (next_vao g), GenBuffers (next_buffer g),
       BindVertexArray (next_vao g), BindBuffer (next_buffer g),
       BufferData (sz * 4) (take (nat sz) vertices), VertexAttribPointer 0 3 12,
       EnableVertexAttribArray 0, BindBuffer 0, BindVertexArray 0]"
  by (simp add: Object_new_def Let_def glGenVertexArrays_def glGenBuffers_def gl_def cong: let_weak_cong)

lemma Object_new_object:
  "fst (Object_new vertices sz g) =
     \<lparr> VBO = next_buffer g, VAO = next_vao g, vertexCount = sz sdiv 3 \<rparr>"
  by (simp add: Object_new_def Let_def glGenVertexArrays_def glGenBuffers_def gl_def cong: let_weak_cong)

lemma Object_new_counters:
  "next_vao (snd (Object_new vertices sz g)) = next_vao g + 1"
  "next_buffer (snd (Object_new vertices sz g)) = next_buffer g + 1"
  "next_shader (snd (Object_new vertices sz g)) = next_shader g"
  "compiles (snd (Object_new vertices sz g)) = compiles g"
  "links (snd (Object_new vertices sz g)) = links g"
  "cout (snd (Object_new vertices sz g)) = cout g"
  by (simp_all add: Object_new_def Let_def glGenVertexArrays_def glGenBuffers_def gl_def cong: let_weak_cong)

lemma Object_delete_calls:
  "calls (Object_delete obj g) = calls g @ [DeleteVertexArrays (VAO obj), DeleteBuffers (VBO obj)]"
  by (simp add: Object_delete_def Let_def gl_def)

lemma Object_delete_counters:
  "next_vao (Object_delete obj g) = next_vao g"
  "next_buffer (Object_delete obj g) = next_buffer g"
  by (simp_all add: Object_delete_def Let_def gl_def)

lemma Draw_calls:
  "calls (Draw obj g) =
     calls g @ [BindVertexArray (VAO obj), DrawArrays 0 (vertexCount obj), BindVertexArray 0]"
  by (simp add: Draw_def Let_def gl_def)

lemma Draw_counters:
  "next_vao (Draw obj g) = next_vao g"
  "next_buffer (Draw obj g) = next_buffer g"
  by (simp_all add: Draw_def Let_def gl_def)


text \<open>
  Claim C7. Constructing an \<open>Object\<close> creates exactly one vertex array and one buffer
  and deletes nothing; destroying it issues, whatever its state, exactly one vertex-array
  delete and one buffer delete, of the two names created. On a collaborator that had
  recorded nothing, the names created and the names deleted are then the same.
\<close>

theorem construct_destroy_paired:
  "(case Object_new vertices sz g of (obj, g1) \<Rightarrow>
      created_vaos (calls g1) = created_vaos (calls g) @ [VAO obj]
    \<and> created_buffers (calls g1) = created_buffers (calls g) @ [VBO obj]
    \<and> deleted_vaos (calls g1) = deleted_vaos (calls g)
    \<and> deleted_buffers (calls g1) = deleted_buffers (calls g)
    \<and> calls (Object_delete obj g1) = calls g1 @ [DeleteVertexArrays (VAO obj), DeleteBuffers (VBO obj)]
    \<and> created_vaos (calls (Object_delete obj g1)) = created_vaos (calls g) @ [VAO obj]
    \<and> created_buffers (calls (Object_delete obj g1)) = created_buffers (calls g) @ [VBO obj]
    \<and> deleted_vaos (calls (Object_delete obj g1)) = deleted_vaos (calls g) @ [VAO obj]
    \<and> deleted_buffers (calls (Object_delete obj g1)) = deleted_buffers (calls g) @ [VBO obj])
   \<and> (case Object_new vertices sz (gl_new cs l) of (obj, g1) \<Rightarrow>
      created_vaos (calls (Object_delete obj g1)) = deleted_vaos (calls (Object_delete obj g1))
    \<and> created_buffers (calls (Object_delete obj g1)) = deleted_buffers (calls (Object_delete obj g1)))"
proof -
  obtain obj g1 where new: "Object_new vertices sz g = (obj, g1)"
    by (cases "Object_new vertices sz g")
  have obj: "VAO obj = next_vao g" "VBO obj = next_buffer g"
    using Object_new_object [of vertices sz g] new by simp_all
  have g1: "calls g1 = calls g @ [GenVertexArrays (next_vao g), GenBuffers (next_buffer g),
       BindVertexArray (next_vao g), BindBuffer (next_buffer g),
       BufferData (sz * 4) (take (nat sz) vertices), VertexAttribPointer 0 3 12,
       EnableVertexAttribArray 0, BindBuffer 0, BindVertexArray 0]"
    using Object_new_calls [of vertices sz g] new by simp
  obtain obj' g1' where new': "Object_new vertices sz (gl_new cs l) = (obj', g1')"
    by (cases "Object_new vertices sz (gl_new cs l)")
  have obj': "VAO obj' = 1" "VBO obj' = 1"
    using Object_new_object [of vertices sz "gl_new cs l"] new' by (simp_all add: gl_new_def)
  have g1': "calls g1' = [GenVertexArrays 1, GenBuffers 1,
       BindVertexArray 1, BindBuffer 1,
       BufferData (sz * 4) (take (nat sz) vertices), VertexAttribPointer 0 3 12,
       EnableVertexAttribArray 0, BindBuffer 0, BindVertexArray 0]"
    using Object_new_calls [of vertices sz "gl_new cs l"] new' by (simp add: gl_new_def)
  show ?thesis
    unfolding new new' prod.case
    by (simp add: Object_delete_calls g1 g1' obj obj' recording_append)
qed

section \<open>Programs over the public interface of Object\<close>

lemma live_append: "live (xs @ ys) = live xs @ live ys"
  by (induction xs rule: live.induct) simp_all

lemma live_split:
  assumes "k < length os" "os ! k = Some obj"
  shows "live os = live (take k os) @ obj # live (drop (Suc k) os)"
    and "live (os[k := None]) = live (take k os) @ live (drop (Suc k) os)"
proof -
  from assms id_take_nth_drop [of k os] have "os = take k os @ Some obj # drop (Suc k) os"
    by simp
  then have "live os = live (take k os @ Some obj # drop (Suc k) os)" by simp
  then show "live os = live (take k os) @ obj # live (drop (Suc k) os)"
    by (simp add: live_append)
  from assms have "os[k := None] = take k os @ None # drop (Suc k) os"
    by (simp add: upd_conv_take_nth_drop)
  then show "live (os[k := None]) = live (take k os) @ live (drop (Suc k) os)"
    by (simp add: live_append)
qed

lemma names_ok_fresh:
  "names_ok alive deleted next \<Longrightarrow> names_ok (alive @ [next]) deleted (Suc next)"
  by (fastforce simp: names_ok_def list_all_iff intro: less_SucI)

lemma names_ok_delete:
  "names_ok (a @ h # b) deleted next \<Longrightarrow> names_ok (a @ b) (deleted @ [h]) next"
  by (auto simp: names_ok_def list_all_iff)

lemma world_ok_new: "world_ok (world_new cs l)"
  by (simp add: world_ok_def world_new_def gl_new_def names_ok_def)

lemma world_ok_Construct: "world_ok w \<Longrightarrow> world_ok (step_object w (Construct vertices sz))"
proof -
  assume ok: "world_ok w"
  obtain obj g where new: "Object_new vertices sz (gpu w) = (obj, g)"
    by (cases "Object_new vertices sz (gpu w)")
  have obj: "VAO obj = next_vao (gpu w)" "VBO obj = next_buffer (gpu w)"
    using Object_new_object [of vertices sz "gpu w"] new by simp_all
  have g: "deleted_vaos (calls g) = deleted_vaos (calls (gpu w))"
    "deleted_buffers (calls g) = deleted_buffers (calls (gpu w))"
    "next_vao g = next_vao (gpu w) + 1" "next_buffer g = next_buffer (gpu w) + 1"
    using Object_new_calls [of vertices sz "gpu w"] Object_new_counters [of vertices sz "gpu w"] new
    by (simp_all add: recording_append)
  from ok show ?thesis
    by (simp add: world_ok_def new live_append obj g names_ok_fresh)
qed

lemma world_ok_CallDraw: "world_ok w \<Longrightarrow> world_ok (step_object w (CallDraw k))"
  by (auto simp: world_ok_def Draw_calls Draw_counters recording_append split: option.splits)

lemma world_ok_Destroy: "world_ok w \<Longrightarrow> world_ok (step_object w (Destroy k))"
proof (cases "k < length (objects w)")
  case False
  assume "world_ok w"
  with False show ?thesis by simp
next
  case True
  assume ok: "world_ok w"
  show ?thesis
  proof (cases "objects w ! k")
    case None
    with True ok show ?thesis by simp
  next
    case (Some obj)
    note sp = live_split [OF True Some]
    from ok have a:
      "names_ok (map VAO (live (take k (objects w))) @ VAO obj # map VAO (live (drop (Suc k) (objects w))))
         (deleted_vaos (calls (gpu w))) (next_vao (gpu w))"
      and b: "names_ok (map VBO (live (take k (objects w))) @ VBO obj # map VBO (live (drop (Suc k) (objects w))))
         (deleted_buffers (calls (gpu w))) (next_buffer (gpu w))"
      by (simp_all add: world_ok_def sp(1))
    note names_ok_delete [OF a] names_ok_delete [OF b]
    with True Some show ?thesis
      by (simp add: world_ok_def sp(2) Object_delete_calls Object_delete_counters recording_append)
  qed
qed

lemma world_ok_step: "world_ok w \<Longrightarrow> \<not> copies s \<Longrightarrow> world_ok (step_object w s)"
  by (cases s) (simp_all add: world_ok_Construct world_ok_CallDraw world_ok_Destroy del: step_object.simps)

lemma world_ok_run:
  "world_ok w \<Longrightarrow> \<forall>s \<in> set steps. \<not> copies s \<Longrightarrow> world_ok (object_run w steps)"
  unfolding object_run_def
  by (induction steps arbitrary: w) (simp_all add: world_ok_step del: step_object.simps)

text \<open>
  Claim C8 does not hold: \<open>Object\<close> can be copied. A program that constructs an
  \<open>Object\<close>, copies it and lets both be destroyed has two objects with the same two
  names and releases each name twice.
\<close>

theorem object_copy_counterexample:
  "objects (object_run (world_new (\<lambda>s. True) True) [Construct [0, 0, 0, 1, 0, 0, 0, 1, 0] 9, CopyConstruct 0])
     = [Some \<lparr> VBO = 1, VAO = 1, vertexCount = 3 \<rparr>, Some \<lparr> VBO = 1, VAO = 1, vertexCount = 3 \<rparr>]
   \<and> deleted_vaos (calls (gpu (object_run (world_new (\<lambda>s. True) True)
        [Construct [0, 0, 0, 1, 0, 0, 0, 1, 0] 9, CopyConstruct 0, Destroy 1, Destroy 0]))) = [1, 1]
   \<and> deleted_buffers (calls (gpu (object_run (world_new (\<lambda>s. True) True)
        [Construct [0, 0, 0, 1, 0, 0, 0, 1, 0] 9, CopyConstruct 0, Destroy 1, Destroy 0]))) = [1, 1]
   \<and> \<not> distinct (deleted_vaos (calls (gpu (object_run (world_new (\<lambda>s. True) True)
        [Construct [0, 0, 0, 1, 0, 0, 0, 1, 0] 9, CopyConstruct 0, Destroy 1, Destroy 0]))))"
  by (simp add: object_run_def world_new_def gl_new_def Object_new_def Object_copy_def
      Object_delete_def glGenVertexArrays_def glGenBuffers_def gl_def Let_def
      signed_divide_int_def cong: let_weak_cong)

text \<open>
  Claim C8, amended. In a program over the public interface of \<open>Object\<close> that never
  copies an \<open>Object\<close> (as the demo's \<open>main\<close> never does), no vertex-array name and no
  buffer name is released twice.
\<close>

theorem no_double_release_without_copy:
  assumes "\<forall>s \<in> set steps. \<not> copies s"
  shows "distinct (deleted_vaos (calls (gpu (object_run (world_new cs l) steps))))
    \<and> distinct (deleted_buffers (calls (gpu (object_run (world_new cs l) steps))))"
  using world_ok_run [OF world_ok_new assms, of cs l]
  by (simp add: world_ok_def names_ok_def)

theorem no_double_release_without_copy_witness:
  "\<not> copies (Construct [0, 0, 0, 1, 0, 0, 0, 1, 0] 9) \<and> \<not> copies (CallDraw 0)
   \<and> \<not> copies (Destroy 0)
   \<and> distinct (deleted_vaos (calls (gpu (object_run (world_new (\<lambda>s. True) True)
        [Construct [0, 0, 0, 1, 0, 0, 0, 1, 0] 9, CallDraw 0, Destroy 0, Destroy 0]))))
   \<and> deleted_vaos (calls (gpu (object_run (world_new (\<lambda>s. True) True)
        [Construct [0, 0, 0, 1, 0, 0, 0, 1, 0] 9, CallDraw 0, Destroy 0, Destroy 0]))) = [1]"
proof -
  have hyp: "\<forall>s \<in> set [Construct [0, 0, 0, 1, 0, 0, 0, 1, 0] 9, CallDraw 0, Destroy 0, Destroy 0].
      \<not> copies s"
    by simp
  have run: "deleted_vaos (calls (gpu (object_run (world_new (\<lambda>s. True) True)
        [Construct [0, 0, 0, 1, 0, 0, 0, 1, 0] 9, CallDraw 0, Destroy 0, Destroy 0]))) = [1]"
    by (simp add: object_run_def world_new_def gl_new_def Object_new_def Draw_def
      Object_delete_def glGenVertexArrays_def glGenBuffers_def gl_def Let_def
      signed_divide_int_def cong: let_weak_cong)
  from no_double_release_without_copy [OF hyp, of "\<lambda>s. True" True] run show ?thesis
    by simp
qed

section \<open>The flat-world ground ignores its size\<close>

lemma createShaderProgram_calls:
  "calls (snd (createShaderProgram vs fs g)) =
     calls g @ [CreateShader VERTEX_SHADER (next_shader g), ShaderSource (next_shader g) vs,
       CompileShader (next_shader g),
       CreateShader FRAGMENT_SHADER (next_shader g + 1), ShaderSource (next_shader g + 1) fs,
       CompileShader (next_shader g + 1),
       CreateProgram (next_shader g + 2),
       AttachShader (next_shader g + 2) (next_shader g),
       AttachShader (next_shader g + 2) (next_shader g + 1),
       LinkProgram (next_shader g + 2),
       DeleteShader (next_shader g), DeleteShader (next_shader g + 1)]"
  by (cases "compiles g vs"; cases "compiles g fs"; cases "links g")
     (simp_all add: createShaderProgram_def Let_def glCreateShader_def
          glCreateProgram_def gl_def print_def cong: let_weak_cong)

lemma Ground_new3_uploaded:
  "uploaded (calls (snd (Ground_new3 sz vs fs g))) = uploaded (calls g) @ [generateVertices_flat sz]"
proof -
  have len: "take (nat (int (length (generateVertices_flat sz)))) (generateVertices_flat sz)
      = generateVertices_flat sz"
    by simp
  obtain obj g1 where new: "Object_new (generateVertices_flat sz)
      (int (length (generateVertices_flat sz))) g = (obj, g1)"
    by (cases "Object_new (generateVertices_flat sz) (int (length (generateVertices_flat sz))) g")
  have g1: "uploaded (calls g1) = uploaded (calls g) @ [generateVertices_flat sz]"
    using Object_new_calls [of "generateVertices_flat sz" "int (length (generateVertices_flat sz))" g]
    unfolding new len by (simp add: recording_append)
  obtain prog g2 where prog: "Program_new vs fs g1 = (prog, g2)"
    by (cases "Program_new vs fs g1")
  have g2: "uploaded (calls g2) = uploaded (calls g1)"
    using createShaderProgram_calls [of vs fs g1] prog
    by (simp add: Program_new_def recording_append)
  show ?thesis
    unfolding Ground_new3_def Let_def new prod.case prog
    using g1 g2 by simp
qed

text \<open>
  Claim C9. In the flat-world demo the one-argument \<open>Ground\<close> constructor ignores its
  argument: for every \<open>s\<close> it is the three-argument constructor at half-extent 20 with
  the cube's shader sources, the one buffer it uploads is the quad for 20, and that quad
  spans \<open>[-20, 20]\<close> in X and in Z.
\<close>

theorem Ground_new_ignores_size:
  "Ground_new s g = Ground_new3 20 vertexShaderSource fragmentShaderSource g
   \<and> Ground_new s g = Ground_new 20 g
   \<and> uploaded (calls (snd (Ground_new s g))) = uploaded (calls g) @ [generateVertices_flat 20]
   \<and> vertices_of (generateVertices_flat 20) =
       [Vec3 (- 20) (- 1) (- 20), Vec3 20 (- 1) (- 20), Vec3 (- 20) (- 1) 20,
        Vec3 20 (- 1) (- 20), Vec3 20 (- 1) 20, Vec3 (- 20) (- 1) 20]
   \<and> Min (vx ` set (vertices_of (generateVertices_flat 20))) = - 20
   \<and> Max (vx ` set (vertices_of (generateVertices_flat 20))) = 20
   \<and> Min (vz ` set (vertices_of (generateVertices_flat 20))) = - 20
   \<and> Max (vz ` set (vertices_of (generateVertices_flat 20))) = 20"
proof -
  have verts: "vertices_of (generateVertices_flat 20) =
       [Vec3 (- 20) (- 1) (- 20), Vec3 20 (- 1) (- 20), Vec3 (- 20) (- 1) 20,
        Vec3 20 (- 1) (- 20), Vec3 20 (- 1) 20, Vec3 (- 20) (- 1) 20]"
    by (simp add: generateVertices_flat_def)
  show ?thesis
    unfolding verts
    by (simp add: Ground_new_def Ground_new3_uploaded)
qed

end
